theory Spec2Isabelle
  imports Main
begin

section \<open>Time and credentials (types/types.go)\<close>

text \<open>
  A \<open>time.Duration\<close> is a signed 64-bit count of nanoseconds.  A \<open>time.Time\<close> is
  modelled as the number of nanoseconds since Go's zero instant (January 1, year 1, UTC),
  so that \<open>Time.IsZero\<close> is the test for \<open>0\<close>.  The clock reading \<open>time.Now()\<close> is an
  argument of every function that consults it.
\<close>

type_synonym Duration = int
type_synonym Time = int

definition Second :: Duration where
  "Second = 1000000000"

definition Minute :: Duration where
  "Minute = 60 * Second"

definition Hour :: Duration where
  "Hour = 60 * Minute"

definition maxDuration :: Duration where
  "maxDuration = 2 ^ 63 - 1"

definition minDuration :: Duration where
  "minDuration = - (2 ^ 63)"

definition IsZero :: "Time \<Rightarrow> bool" where
  "IsZero t = (t = 0)"

text \<open>\<open>Time.Sub\<close> saturates at the largest and smallest duration.\<close>

definition Sub :: "Time \<Rightarrow> Time \<Rightarrow> Duration" where
  "Sub t u =
     (let d = t - u
      in if maxDuration < d then maxDuration
         else if d < minDuration then minDuration
         else d)"

definition Since :: "Time \<Rightarrow> Time \<Rightarrow> Duration" where
  "Since now t = Sub now t"

definition Add :: "Time \<Rightarrow> Duration \<Rightarrow> Time" where
  "Add t d = t + d"

definition After :: "Time \<Rightarrow> Time \<Rightarrow> bool" where
  "After t u = (u < t)"

record Token =
  AccessToken :: string
  RefreshToken :: string
  TokenType :: string
  InstanceURL :: string
  ID :: string
  IssuedAt :: Time
  ExpiresAt :: Time
  Scope :: string
  Signature :: string

text \<open>\<open>Token.IsExpired\<close>, with the clock reading \<open>now\<close> passed in.\<close>

definition IsExpired :: "Time \<Rightarrow> Token \<Rightarrow> bool" where
  "IsExpired now t =
     (if IsZero (ExpiresAt t) then 2 * Hour < Since now (IssuedAt t)
      else After now (Add (ExpiresAt t) (- 5 * Minute)))"

text \<open>
  A token as the refresh-token exchange builds it: no \<open>ExpiresAt\<close>, issued at some
  instant \<open>t0\<close>.
\<close>

definition issuedToken :: "Time \<Rightarrow> Token" where
  "issuedToken t0 =
     \<lparr> AccessToken = ''00Dxx!AQ0'', RefreshToken = ''5Aep861'', TokenType = ''Bearer'',
       InstanceURL = ''https://na1.salesforce.com'', ID = '''', IssuedAt = t0,
       ExpiresAt = 0, Scope = ''api'', Signature = '''' \<rparr>"

section \<open>Error taxonomy (types/types.go)\<close>

type_synonym ErrorCode = string

definition ErrorCodeRequestLimit :: ErrorCode where
  "ErrorCodeRequestLimit = ''REQUEST_LIMIT_EXCEEDED''"

definition ErrorCodeUnableToLockRow :: ErrorCode where
  "ErrorCodeUnableToLockRow = ''UNABLE_TO_LOCK_ROW''"

definition StatusUnauthorized :: int where
  "StatusUnauthorized = 401"

definition StatusTooManyRequests :: int where
  "StatusTooManyRequests = 429"

record APIError =
  Message :: string
  ErrorCode :: ErrorCode
  Fields :: "string list"
  StatusCode :: int

datatype ctx_error = Canceled | DeadlineExceeded

datatype csv_error = ErrFieldCount | ErrBareQuote | ErrQuote

text \<open>
  The values of Go's \<open>error\<close> interface that the modelled functions produce.  The dynamic
  type is the constructor: \<open>APIErrorPtr\<close> is a \<open>*types.APIError\<close>, \<open>APIErrors\<close> the slice
  type \<open>types.APIErrors\<close>; the wrapping \<open>fmt.Errorf\<close> values have a constructor each.
\<close>

datatype error =
    MarshalFailed
  | CreateRequestFailed
  | RequestFailed
  | ReadResponseFailed
  | RateLimitError int string
  | APIErrorPtr APIError
  | APIErrors "APIError list"
  | AuthError string string int
  | TokenRequestFailed
  | ContextError ctx_error
  | AttemptsExhausted int "error option"
  | HeaderReadFailed csv_error
  | RowReadFailed csv_error

text \<open>\<open>APIError.IsRetryable\<close>.\<close>

definition IsRetryable :: "APIError \<Rightarrow> bool" where
  "IsRetryable e =
     (if ErrorCode e = ErrorCodeRequestLimit \<or> ErrorCode e = ErrorCodeUnableToLockRow then True
      else StatusCode e = StatusTooManyRequests \<or> 500 \<le> StatusCode e)"

text \<open>\<open>types.IsRateLimitError\<close> and \<open>types.IsRetryableError\<close>.\<close>

definition IsRateLimitError :: "error \<Rightarrow> bool" where
  "IsRateLimitError err =
     (case err of
        RateLimitError ra msg \<Rightarrow> True
      | APIErrorPtr e \<Rightarrow>
          ErrorCode e = ErrorCodeRequestLimit \<or> StatusCode e = StatusTooManyRequests
      | _ \<Rightarrow> False)"

definition IsRetryableError :: "error \<Rightarrow> bool" where
  "IsRetryableError err =
     (case err of
        APIErrorPtr e \<Rightarrow> IsRetryable e
      | APIErrors (e # es) \<Rightarrow> IsRetryable e
      | _ \<Rightarrow> IsRateLimitError err)"

text \<open>
  Decimal rendering of a status code (\<open>%d\<close>) and \<open>strconv.Atoi\<close>: an optional sign, then
  one or more decimal digits, the value within the 64-bit range.
\<close>

function natToString :: "nat \<Rightarrow> string" where
  "natToString n =
     (if n < 10 then [''0123456789'' ! n]
      else natToString (n div 10) @ [''0123456789'' ! (n mod 10)])"
  by pat_completeness auto
termination
  by (relation "measure id") auto

definition intToString :: "int \<Rightarrow> string" where
  "intToString i = (if i < 0 then CHR ''-'' # natToString (nat (- i)) else natToString (nat i))"

definition digitVal :: "char \<Rightarrow> nat option" where
  "digitVal c =
     map_of [(CHR ''0'', 0), (CHR ''1'', 1), (CHR ''2'', 2), (CHR ''3'', 3), (CHR ''4'', 4),
             (CHR ''5'', 5), (CHR ''6'', 6), (CHR ''7'', 7), (CHR ''8'', 8), (CHR ''9'', 9)] c"

fun parseDigits :: "string \<Rightarrow> nat \<Rightarrow> nat option" where
  "parseDigits [] acc = Some acc"
| "parseDigits (c # cs) acc =
     (case digitVal c of None \<Rightarrow> None | Some d \<Rightarrow> parseDigits cs (10 * acc + d))"

definition Atoi :: "string \<Rightarrow> int option" where
  "Atoi s =
     (case s of
        [] \<Rightarrow> None
      | c # cs \<Rightarrow>
          (let neg = (c = CHR ''-'');
               ds = (if c = CHR ''+'' \<or> c = CHR ''-'' then cs else s)
           in if ds = [] then None
              else (case parseDigits ds 0 of
                      None \<Rightarrow> None
                    | Some n \<Rightarrow>
                        (let v = (if neg then - int n else int n)
                         in if - (2 ^ 63) \<le> v \<and> v < 2 ^ 63 then Some v else None))))"

text \<open>
  What \<open>json.Unmarshal\<close> makes of a response body is the standard library's work and is
  carried with the body: the body decodes into a slice of error objects, or into a single
  error object, or into neither.  The decoded objects have \<open>StatusCode = 0\<close>, the field
  being excluded from JSON.
\<close>

datatype decoded = DecodesToArray "APIError list" | DecodesToObject APIError | Undecodable

text \<open>\<open>types.ParseAPIError\<close>.\<close>

definition ParseAPIError :: "int \<Rightarrow> string \<Rightarrow> decoded \<Rightarrow> error" where
  "ParseAPIError statusCode body dec =
     (let fallback = APIErrorPtr \<lparr> Message = body, ErrorCode = ''HTTP_'' @ intToString statusCode,
                                   Fields = [], StatusCode = statusCode \<rparr>
      in case dec of
           DecodesToArray errs \<Rightarrow>
             (if 0 < length errs then APIErrors (map (\<lambda>e. e\<lparr>StatusCode := statusCode\<rparr>) errs)
              else fallback)
         | DecodesToObject singleErr \<Rightarrow>
             (if ErrorCode singleErr \<noteq> [] then APIErrorPtr (singleErr\<lparr>StatusCode := statusCode\<rparr>)
              else fallback)
         | Undecodable \<Rightarrow> fallback)"

section \<open>The request executor (http/client.go)\<close>

text \<open>
  The configuration of a \<open>Client\<close>.  \<open>hasTokenProvider\<close> says that \<open>tokenProvider\<close> is not
  nil; \<open>acceptsRequest method url\<close> is the standard library's verdict on whether
  \<open>http.NewRequestWithContext\<close> builds a request for that method and URL.  The middleware
  list is empty, so \<open>Client.Do\<close> is the transport itself.
\<close>

record Client =
  maxRetries :: int
  retryWaitMin :: Duration
  retryWaitMax :: Duration
  hasTokenProvider :: bool
  acceptsRequest :: "string \<Rightarrow> string \<Rightarrow> bool"

text \<open>
  The \<open>body interface{}\<close> argument by its dynamic type.  For any other type than the three
  passed through, \<open>OtherBody\<close> carries the result of \<open>json.Marshal\<close>, \<open>None\<close> when it fails.
\<close>

datatype req_body =
    NoBody
  | ReaderBody string
  | BytesBody string
  | StringBody string
  | OtherBody "string option"

text \<open>
  What one call of the transport gives: an error from \<open>Do\<close>, an error while reading the
  response body, or a response with its status code, its \<open>Retry-After\<close> header (empty when
  absent) and its body, raw and decoded.
\<close>

datatype reply = DoError | ReadError | Reply int string string decoded

text \<open>
  Everything outside the executor is scripted in the \<open>world\<close>: the replies of the transport
  and the results of the provider's refresh, each in the order the calls are made (an
  exhausted script is a failed call); the value of the floating-point expression
  \<open>time.Duration(wait + jitter)\<close> at each attempt; and for each attempt whether the
  \<open>select\<close> of the retry loop receives from \<open>ctx.Done()\<close> (with the context's error) rather
  than from the timer.  The world also holds the mutable fields (\<open>baseURL\<close>,
  \<open>accessToken\<close>, the provider's token) and three logs: the requests handed to the
  transport (method, URL, \<open>Authorization\<close> header), the number of refresh calls, and the
  sleeps that ran to completion.
\<close>

record world =
  baseURL :: string
  accessToken :: string
  providerToken :: "Token option"
  replies :: "reply list"
  refreshes :: "(error + Token) list"
  floatDuration :: "int \<Rightarrow> Duration"
  ctxDone :: "int \<Rightarrow> ctx_error option"
  sent :: "(string \<times> string \<times> string) list"
  refreshCalls :: nat
  slept :: "Duration list"

text \<open>
  \<open>SalesforceClient.RefreshToken\<close> (client.go): one call of the authenticator's \<open>Refresh\<close>;
  on success the new token replaces the old one and is pushed into the HTTP client.
\<close>

definition SalesforceClient_RefreshToken :: "world \<Rightarrow> error option \<times> world" where
  "SalesforceClient_RefreshToken w =
     (let w1 = w\<lparr>refreshCalls := refreshCalls w + 1\<rparr>
      in case refreshes w of
           [] \<Rightarrow> (Some TokenRequestFailed, w1)
         | r # rs \<Rightarrow>
             (case r of
                Inl err \<Rightarrow> (Some err, w1\<lparr>refreshes := rs\<rparr>)
              | Inr token \<Rightarrow>
                  (None, w1\<lparr>refreshes := rs, providerToken := Some token,
                             accessToken := AccessToken token,
                             baseURL := (if InstanceURL token \<noteq> [] then InstanceURL token
                                         else baseURL w)\<rparr>)))"

text \<open>The base URL and bearer token a request goes out with (first lines of \<open>doRequest\<close>).\<close>

definition credentials :: "Client \<Rightarrow> world \<Rightarrow> string \<times> string" where
  "credentials c w =
     (if hasTokenProvider c then
        (case providerToken w of
           None \<Rightarrow> (baseURL w, accessToken w)
         | Some t \<Rightarrow> (if InstanceURL t \<noteq> [] then InstanceURL t else baseURL w, AccessToken t))
      else (baseURL w, accessToken w))"

text \<open>\<open>Client.Do\<close> followed by \<open>io.ReadAll\<close>: the request is logged, the next reply is taken.\<close>

definition Do :: "string \<Rightarrow> string \<Rightarrow> string \<Rightarrow> world \<Rightarrow> reply \<times> world" where
  "Do method url token w =
     (let w1 = w\<lparr>sent := sent w @ [(method, url, ''Bearer '' @ token)]\<rparr>
      in case replies w of
           [] \<Rightarrow> (DoError, w1)
         | r # rs \<Rightarrow> (r, w1\<lparr>replies := rs\<rparr>))"

lemma replies_RefreshToken: "SalesforceClient_RefreshToken w = (r, w') \<Longrightarrow> replies w' = replies w"
  by (auto simp: SalesforceClient_RefreshToken_def Let_def split: list.splits sum.splits)

lemma replies_Do: "Do m u t w = (r, w') \<Longrightarrow> length (replies w') \<le> length (replies w)"
  by (auto simp: Do_def Let_def split: list.splits)

lemma replies_Do_Reply:
  "Do m u t w = (Reply st ra b d, w') \<Longrightarrow> length (replies w') < length (replies w)"
  by (auto simp: Do_def Let_def split: list.splits)

text \<open>\<open>Client.doRequest\<close>.\<close>

function doRequest ::
  "Client \<Rightarrow> string \<Rightarrow> string \<Rightarrow> req_body \<Rightarrow> world \<Rightarrow> (error + string) \<times> world" where
  "doRequest c method path body w =
     (case credentials c w of
        (url, token) \<Rightarrow>
          if body = OtherBody None then (Inl MarshalFailed, w)
          else if \<not> acceptsRequest c method (url @ path) then (Inl CreateRequestFailed, w)
          else
            (case Do method (url @ path) token w of
               (DoError, w1) \<Rightarrow> (Inl RequestFailed, w1)
             | (ReadError, w1) \<Rightarrow> (Inl ReadResponseFailed, w1)
             | (Reply status ra respBody dec, w1) \<Rightarrow>
                 if status < 200 \<or> 300 \<le> status then
                   if status = StatusTooManyRequests then
                     (Inl (RateLimitError
                             (if ra \<noteq> [] then (case Atoi ra of Some s \<Rightarrow> s | None \<Rightarrow> 60) else 60)
                             respBody), w1)
                   else if status = StatusUnauthorized \<and> hasTokenProvider c then
                     (case SalesforceClient_RefreshToken w1 of
                        (None, w2) \<Rightarrow> doRequest c method path body w2
                      | (Some err, w2) \<Rightarrow> (Inl (ParseAPIError status respBody dec), w2))
                   else (Inl (ParseAPIError status respBody dec), w1)
                 else (Inr respBody, w1)))"
  by pat_completeness auto
termination
  by (relation "measure (\<lambda>(c, method, path, body, w). length (replies w))")
     (auto dest!: replies_RefreshToken [OF sym] replies_Do_Reply [OF sym])

text \<open>\<open>isRetryable\<close> of http/client.go.\<close>

definition isRetryable :: "error \<Rightarrow> bool" where
  "isRetryable err =
     (case err of
        RateLimitError ra msg \<Rightarrow> True
      | APIErrorPtr apiErr \<Rightarrow> IsRetryable apiErr
      | _ \<Rightarrow> False)"

text \<open>
  \<open>Client.calculateBackoff\<close>.  The argument \<open>d\<close> is the value of
  \<open>time.Duration(wait + jitter)\<close>, a float64 computation on a random draw converted to a
  64-bit integer; the comparison with \<open>retryWaitMax\<close> is the integer part of the function.
\<close>

definition calculateBackoff :: "Client \<Rightarrow> Duration \<Rightarrow> Duration" where
  "calculateBackoff c d = (if retryWaitMax c < d then retryWaitMax c else d)"

text \<open>
  The retry loop of \<open>Client.Request\<close>, from attempt \<open>attempt\<close> on with \<open>lastErr\<close> so far.
\<close>

function RequestFrom ::
  "Client \<Rightarrow> string \<Rightarrow> string \<Rightarrow> req_body \<Rightarrow> int \<Rightarrow> error option \<Rightarrow> world
     \<Rightarrow> (error + string) \<times> world" where
  "RequestFrom c method path body attempt lastErr w =
     (if attempt \<le> maxRetries c then
        (case doRequest c method path body w of
           (Inl err, w1) \<Rightarrow>
             if \<not> isRetryable err then (Inl err, w1)
             else if attempt < maxRetries c then
               (let wait = calculateBackoff c (floatDuration w1 attempt)
                in case ctxDone w1 attempt of
                     Some ctxErr \<Rightarrow> (Inl (ContextError ctxErr), w1)
                   | None \<Rightarrow>
                       RequestFrom c method path body (attempt + 1) (Some err)
                         (w1\<lparr>slept := slept w1 @ [wait]\<rparr>))
             else RequestFrom c method path body (attempt + 1) (Some err) w1
         | (Inr resp, w1) \<Rightarrow> (Inr resp, w1))
      else (Inl (AttemptsExhausted (maxRetries c + 1) lastErr), w))"
  by pat_completeness auto
termination
  by (relation "measure (\<lambda>(c, method, path, body, attempt, lastErr, w).
        nat (maxRetries c + 1 - attempt))") auto

definition Request ::
  "Client \<Rightarrow> string \<Rightarrow> string \<Rightarrow> req_body \<Rightarrow> world \<Rightarrow> (error + string) \<times> world" where
  "Request c method path body w = RequestFrom c method path body 0 None w"

definition Get :: "Client \<Rightarrow> string \<Rightarrow> world \<Rightarrow> (error + string) \<times> world" where
  "Get c path w = Request c ''GET'' path NoBody w"

definition Put :: "Client \<Rightarrow> string \<Rightarrow> req_body \<Rightarrow> world \<Rightarrow> (error + string) \<times> world" where
  "Put c path body w = Request c ''PUT'' path body w"

section \<open>Delimited text (encoding/csv as bulk uses it)\<close>

text \<open>
  \<open>parseCSV\<close> reads with \<open>csv.NewReader\<close> and \<open>UploadCSV\<close> writes with \<open>csv.NewWriter\<close>,
  both with the settings the constructors give: the comma as delimiter, no comment
  character, no lazy quotes, no trimming, \<open>FieldsPerRecord = 0\<close>, line feed as record
  terminator.  The reader and the writer are the standard library's; they are modelled
  here over the bytes of the input as far as these settings reach.
\<close>

definition NL :: char where "NL = CHR 0x0A"
definition CR :: char where "CR = CHR 0x0D"
definition Quote :: char where "Quote = CHR 0x22"
definition Comma :: char where "Comma = CHR '',''"

text \<open>
  \<open>Reader.readLine\<close>: the next line with its line feed, the input after it, and whether the
  input was already at its end.  A carriage return before the line feed, or at the very
  end of the input, is dropped.
\<close>

definition readLine :: "string \<Rightarrow> string \<times> string \<times> bool" where
  "readLine inp =
     (if inp = [] then ([], [], True)
      else
        (let l = takeWhile (\<lambda>ch. ch \<noteq> NL) inp;
             rest = dropWhile (\<lambda>ch. ch \<noteq> NL) inp;
             l' = (if l \<noteq> [] \<and> last l = CR then butlast l else l)
         in case rest of
              [] \<Rightarrow> (l', [], False)
            | nl # rest' \<Rightarrow> (l' @ [NL], rest', False)))"

definition lengthNL :: "string \<Rightarrow> nat" where
  "lengthNL b = (if b \<noteq> [] \<and> last b = NL then 1 else 0)"

lemma readLine_shorter:
  "readLine inp = (line, rest, False) \<Longrightarrow> length rest < length inp"
proof -
  assume a: "readLine inp = (line, rest, False)"
  have l: "length (dropWhile (\<lambda>ch. ch \<noteq> NL) inp) \<le> length inp"
    by (rule length_dropWhile_le)
  from a l show ?thesis
    by (auto simp: readLine_def Let_def split: if_splits list.splits)
qed

lemma readLine_total:
  "readLine inp = (line, rest, eof) \<Longrightarrow> length line + length rest \<le> length inp"
proof -
  assume a: "readLine inp = (line, rest, eof)"
  have l: "length (takeWhile (\<lambda>ch. ch \<noteq> NL) inp) + length (dropWhile (\<lambda>ch. ch \<noteq> NL) inp) = length inp"
    by (metis length_append takeWhile_dropWhile_id)
  from a l show ?thesis
    by (auto simp: readLine_def Let_def split: if_splits list.splits)
qed

text \<open>The first loop of \<open>Reader.readRecord\<close>: empty lines are skipped.\<close>

function nextLine :: "string \<Rightarrow> (string \<times> string) option" where
  "nextLine inp =
     (case readLine inp of
        (line, rest, eof) \<Rightarrow>
          if eof then None
          else if length line = lengthNL line then nextLine rest
          else Some (line, rest))"
  by pat_completeness auto
termination
  by (relation "measure length") (auto dest!: readLine_shorter [OF sym])

text \<open>\<open>bytes.IndexByte\<close>: the position of the first occurrence, if any.\<close>

definition index :: "char \<Rightarrow> string \<Rightarrow> nat option" where
  "index ch s = (if ch \<in> set s then Some (length (takeWhile (\<lambda>x. x \<noteq> ch) s)) else None)"

text \<open>
  The field loop of \<open>Reader.readRecord\<close>, for a field that does not start with a quote
  (\<open>parseField\<close>) and inside a quoted field (\<open>parseQuoted\<close>, which reads on into the
  following lines).  The result is the fields so far, the error if any, and the input
  left.
\<close>

type_synonym parsed = "string list \<times> csv_error option \<times> string"

function parseField :: "string \<Rightarrow> string \<Rightarrow> string list \<Rightarrow> parsed"
  and parseQuoted :: "string \<Rightarrow> string \<Rightarrow> string \<Rightarrow> string list \<Rightarrow> parsed" where
  "parseField line rest flds =
     (if line = [] \<or> hd line \<noteq> Quote then
        (let i = index Comma line;
             field = (case i of Some k \<Rightarrow> take k line
                      | None \<Rightarrow> take (length line - lengthNL line) line)
         in if Quote \<in> set field then (flds, Some ErrBareQuote, rest)
            else (case i of
                    Some k \<Rightarrow> parseField (drop (k + 1) line) rest (flds @ [field])
                  | None \<Rightarrow> (flds @ [field], None, rest)))
      else parseQuoted (tl line) rest [] flds)"
| "parseQuoted line rest buf flds =
     (case index Quote line of
        Some i \<Rightarrow>
          (let buf' = buf @ take i line;
               line' = drop (i + 1) line
           in if line' \<noteq> [] \<and> hd line' = Quote then parseQuoted (tl line') rest (buf' @ [Quote]) flds
              else if line' \<noteq> [] \<and> hd line' = Comma then parseField (tl line') rest (flds @ [buf'])
              else if lengthNL line' = length line' then (flds @ [buf'], None, rest)
              else (flds, Some ErrQuote, rest))
      | None \<Rightarrow>
          if 0 < length line then
            (case readLine rest of
               (line2, rest2, eof) \<Rightarrow> parseQuoted line2 rest2 (buf @ line) flds)
          else (flds, Some ErrQuote, rest))"
  by pat_completeness auto
termination
  by (relation "measure (\<lambda>x. case x of
          Inl (line, rest, flds) \<Rightarrow> length line + length rest
        | Inr (line, rest, buf, flds) \<Rightarrow> length line + length rest)")
     (auto simp: index_def neq_Nil_conv dest!: readLine_total [OF sym]
       dest: length_pos_if_in_set split: if_splits)

text \<open>
  \<open>Reader.Read\<close>.  With \<open>FieldsPerRecord = 0\<close> the first record sets the number of fields
  that every later record must have; a record with another number of fields is returned
  together with \<open>ErrFieldCount\<close>.
\<close>

record Reader =
  unread :: string
  FieldsPerRecord :: int

definition NewReader :: "string \<Rightarrow> Reader" where
  "NewReader data = \<lparr> unread = data, FieldsPerRecord = 0 \<rparr>"

datatype read_result = EOF | Rec "string list" "csv_error option"

definition Read :: "Reader \<Rightarrow> read_result \<times> Reader" where
  "Read r =
     (case nextLine (unread r) of
        None \<Rightarrow> (EOF, r\<lparr>unread := []\<rparr>)
      | Some (line, rest) \<Rightarrow>
          (case parseField line rest [] of
             (dst, err, rest') \<Rightarrow>
               if 0 < FieldsPerRecord r then
                 (Rec dst (if int (length dst) \<noteq> FieldsPerRecord r \<and> err = None
                           then Some ErrFieldCount else err),
                  r\<lparr>unread := rest'\<rparr>)
               else if FieldsPerRecord r = 0 then
                 (Rec dst err, r\<lparr>unread := rest', FieldsPerRecord := int (length dst)\<rparr>)
               else (Rec dst err, r\<lparr>unread := rest'\<rparr>)))"

lemma nextLine_shorter: "nextLine inp = Some (line, rest) \<Longrightarrow> length rest < length inp"
proof (induction inp rule: nextLine.induct)
  case (1 inp)
  obtain l r e where rl: "readLine inp = (l, r, e)"
    by (cases "readLine inp")
  show ?case
  proof (cases "\<not> e \<and> length l = lengthNL l")
    case True
    with rl "1.prems" have "nextLine r = Some (line, rest)"
      by (subst (asm) nextLine.simps) simp
    with "1.IH" [OF rl [symmetric] refl] True have "length rest < length r"
      by simp
    moreover from rl True have "length r < length inp"
      by (auto dest: readLine_shorter)
    ultimately show ?thesis by simp
  next
    case False
    with rl "1.prems" show ?thesis
      by (subst (asm) nextLine.simps) (auto split: if_splits dest: readLine_shorter)
  qed
qed

lemma parse_shorter:
  "parseField line rest flds = (dst, err, rest') \<Longrightarrow> length rest' \<le> length rest"
  "parseQuoted line rest buf flds = (dst, err, rest') \<Longrightarrow> length rest' \<le> length rest"
proof (induction line rest flds and line rest buf flds arbitrary: dst err rest' and dst err rest'
    rule: parseField_parseQuoted.induct)
  case (1 line rest flds)
  note p = "1.prems"
  show ?case
  proof (cases "line = [] \<or> hd line \<noteq> Quote")
    case False
    with p have "parseQuoted (tl line) rest [] flds = (dst, err, rest')"
      by (subst (asm) parseField.simps) simp
    with "1.IH"(2) [OF False] show ?thesis by blast
  next
    case True
    show ?thesis
    proof (cases "index Comma line")
      case None
      with True p show ?thesis
        by (subst (asm) parseField.simps) (simp add: Let_def split: if_splits)
    next
      case (Some k)
      show ?thesis
      proof (cases "Quote \<in> set (take k line)")
        case Q: True
        with True Some p show ?thesis
          by (subst (asm) parseField.simps) (simp add: Let_def)
      next
        case Q: False
        with True Some p
        have r: "parseField (drop (k + 1) line) rest (flds @ [take k line]) = (dst, err, rest')"
          by (subst (asm) parseField.simps) (simp add: Let_def)
        have "Quote \<notin> set (case index Comma line of
                None \<Rightarrow> take (length line - lengthNL line) line | Some k \<Rightarrow> take k line)"
          using Q Some by simp
        from "1.IH"(1) [OF True refl refl this Some, of dst err rest'] r Some
        show ?thesis by simp
      qed
    qed
  qed
next
  case (2 line rest buf flds)
  note p = "2.prems"
  show ?case
  proof (cases "index Quote line")
    case None
    show ?thesis
    proof (cases "0 < length line")
      case False
      with None p show ?thesis
        by (subst (asm) parseQuoted.simps) simp
    next
      case True
      obtain l2 r2 e where rl: "readLine rest = (l2, r2, e)"
        by (cases "readLine rest")
      with None True p
      have r: "parseQuoted l2 r2 (buf @ line) flds = (dst, err, rest')"
        by (subst (asm) parseQuoted.simps) simp
      from "2.IH"(1) [OF None True rl [symmetric] refl r]
      have "length rest' \<le> length r2" .
      moreover from readLine_total [OF rl] have "length r2 \<le> length rest" by simp
      ultimately show ?thesis by simp
    qed
  next
    case (Some i)
    let ?l = "drop (i + 1) line"
    show ?thesis
    proof (cases "?l \<noteq> [] \<and> hd ?l = Quote")
      case A: True
      with Some p
      have r: "parseQuoted (tl ?l) rest ((buf @ take i line) @ [Quote]) flds = (dst, err, rest')"
        by (subst (asm) parseQuoted.simps) (simp add: Let_def)
      from "2.IH"(2) [OF Some refl refl A r] show ?thesis .
    next
      case A: False
      show ?thesis
      proof (cases "?l \<noteq> [] \<and> hd ?l = Comma")
        case B: True
        with A Some p
        have r: "parseField (tl ?l) rest (flds @ [buf @ take i line]) = (dst, err, rest')"
          by (subst (asm) parseQuoted.simps) (simp add: Let_def)
        from "2.IH"(3) [OF Some refl refl A B r] show ?thesis .
      next
        case B: False
        with A Some p show ?thesis
          by (subst (asm) parseQuoted.simps) (simp add: Let_def split: if_splits)
      qed
    qed
  qed
qed

lemma Read_shorter:
  "Read r = (Rec dst err, r') \<Longrightarrow> length (unread r') < length (unread r)"
proof -
  assume a: "Read r = (Rec dst err, r')"
  then obtain line rest where n: "nextLine (unread r) = Some (line, rest)"
    by (auto simp: Read_def split: option.splits)
  obtain d e rest' where pf: "parseField line rest [] = (d, e, rest')"
    by (cases "parseField line rest []")
  from a n pf have "unread r' = rest'"
    by (auto simp: Read_def split: if_splits)
  with nextLine_shorter [OF n] parse_shorter(1) [OF pf] show ?thesis by simp
qed

section \<open>Bulk results and uploads (the bulk package)\<close>

text \<open>
  A record is a \<open>map[string]interface{}\<close> whose values are the cells, hence strings.  The
  inner loop of \<open>parseCSV\<close> stores the cell under each header for which the row has one.
\<close>

fun fillRecord ::
  "string list \<Rightarrow> nat \<Rightarrow> string list \<Rightarrow> (string \<rightharpoonup> string) \<Rightarrow> (string \<rightharpoonup> string)" where
  "fillRecord [] i row record = record"
| "fillRecord (h # hs) i row record =
     fillRecord hs (i + 1) row (if i < length row then record(h \<mapsto> row ! i) else record)"

text \<open>The row loop of \<open>parseCSV\<close>, and \<open>parseCSV\<close>.\<close>

function parseRows ::
  "Reader \<Rightarrow> string list \<Rightarrow> (string \<rightharpoonup> string) list \<Rightarrow> error + (string \<rightharpoonup> string) list" where
  "parseRows reader headers records =
     (case Read reader of
        (EOF, reader') \<Rightarrow> Inr records
      | (Rec row (Some err), reader') \<Rightarrow> Inl (RowReadFailed err)
      | (Rec row None, reader') \<Rightarrow>
          parseRows reader' headers (records @ [fillRecord headers 0 row Map.empty]))"
  by pat_completeness auto
termination
  by (relation "measure (\<lambda>(reader, headers, records). length (unread reader))")
     (auto dest!: Read_shorter [OF sym])

definition parseCSV :: "string \<Rightarrow> error + (string \<rightharpoonup> string) list" where
  "parseCSV data =
     (case Read (NewReader data) of
        (EOF, reader) \<Rightarrow> Inr []
      | (Rec headers (Some err), reader) \<Rightarrow> Inl (HeaderReadFailed err)
      | (Rec headers None, reader) \<Rightarrow> parseRows reader headers [])"

definition getString :: "(string \<rightharpoonup> string) \<Rightarrow> string \<Rightarrow> string" where
  "getString m key = (case m key of Some v \<Rightarrow> v | None \<Rightarrow> [])"

text \<open>
  \<open>Writer.fieldNeedsQuotes\<close> and \<open>Writer.Write\<close>: a field is quoted when it holds a
  delimiter, a quote or a line break, when it is a backslash followed by a dot, or when
  its first rune is white space (\<open>isSpaceStart\<close>, over the UTF-8 encodings of the
  white-space code points).
\<close>

definition isSpaceStart :: "string \<Rightarrow> bool" where
  "isSpaceStart field =
     (take 1 field \<in> set [[CHR 0x09], [CHR 0x0A], [CHR 0x0B], [CHR 0x0C], [CHR 0x0D], [CHR 0x20]] \<or>
      take 2 field \<in> set [[CHR 0xC2, CHR 0x85], [CHR 0xC2, CHR 0xA0]] \<or>
      take 3 field \<in> set
        [[CHR 0xE1, CHR 0x9A, CHR 0x80], [CHR 0xE2, CHR 0x80, CHR 0x80],
         [CHR 0xE2, CHR 0x80, CHR 0x81], [CHR 0xE2, CHR 0x80, CHR 0x82],
         [CHR 0xE2, CHR 0x80, CHR 0x83], [CHR 0xE2, CHR 0x80, CHR 0x84],
         [CHR 0xE2, CHR 0x80, CHR 0x85], [CHR 0xE2, CHR 0x80, CHR 0x86],
         [CHR 0xE2, CHR 0x80, CHR 0x87], [CHR 0xE2, CHR 0x80, CHR 0x88],
         [CHR 0xE2, CHR 0x80, CHR 0x89], [CHR 0xE2, CHR 0x80, CHR 0x8A],
         [CHR 0xE2, CHR 0x80, CHR 0xA8], [CHR 0xE2, CHR 0x80, CHR 0xA9],
         [CHR 0xE2, CHR 0x80, CHR 0xAF], [CHR 0xE2, CHR 0x81, CHR 0x9F],
         [CHR 0xE3, CHR 0x80, CHR 0x80]])"

definition fieldNeedsQuotes :: "string \<Rightarrow> bool" where
  "fieldNeedsQuotes field =
     (if field = [] then False
      else if field = [CHR 0x5C, CHR ''.''] then True
      else if list_ex (\<lambda>ch. ch = NL \<or> ch = CR \<or> ch = Quote \<or> ch = Comma) field then True
      else isSpaceStart field)"

definition writeField :: "string \<Rightarrow> string" where
  "writeField field =
     (if \<not> fieldNeedsQuotes field then field
      else Quote # concat (map (\<lambda>ch. if ch = Quote then [Quote, Quote] else [ch]) field) @ [Quote])"

fun joinFields :: "string list \<Rightarrow> string" where
  "joinFields [] = []"
| "joinFields [f] = writeField f"
| "joinFields (f # fs) = writeField f @ [Comma] @ joinFields fs"

definition Write :: "string list \<Rightarrow> string" where
  "Write rec = joinFields rec @ [NL]"

text \<open>
  The bulk \<open>Service\<close> over the executor above.  In \<open>UploadCSV\<close> the values of a record are
  taken in their \<open>%v\<close> rendering, and \<open>keyOrder\<close> is the order in which \<open>range\<close> yields
  the keys of the first record (Go leaves it unspecified).  The buffer of the writer never
  fails, so the two error returns of \<open>Writer.Write\<close> have no branch.
\<close>

record Service =
  client :: Client
  apiVersion :: string

definition UploadData :: "Service \<Rightarrow> string \<Rightarrow> string \<Rightarrow> world \<Rightarrow> error option \<times> world" where
  "UploadData s jobID data w =
     (case Put (client s) (''/services/data/v'' @ apiVersion s @ ''/jobs/ingest/'' @ jobID @ ''/batches'')
             (ReaderBody data) w of
        (Inl err, w') \<Rightarrow> (Some err, w')
      | (Inr resp, w') \<Rightarrow> (None, w'))"

definition UploadCSV ::
  "Service \<Rightarrow> string \<Rightarrow> (string \<rightharpoonup> string) list \<Rightarrow> string list \<Rightarrow> string list \<Rightarrow> world
     \<Rightarrow> error option \<times> world" where
  "UploadCSV s jobID records columns keyOrder w =
     (if length records = 0 then (None, w)
      else
        (let columns' = (if length columns = 0 then columns @ keyOrder else columns);
             buf = Write columns' @
                   concat (map (\<lambda>record.
                       Write (map (\<lambda>col. case record col of Some val \<Rightarrow> val | None \<Rightarrow> []) columns'))
                     records)
         in UploadData s jobID buf w))"

record SuccessRecord =
  sID :: string
  sCreated :: bool
  sData :: "string \<rightharpoonup> string"

record FailedRecord =
  fID :: string
  fError :: string
  fData :: "string \<rightharpoonup> string"

definition GetSuccessfulRecords ::
  "Service \<Rightarrow> string \<Rightarrow> world \<Rightarrow> (error + SuccessRecord list) \<times> world" where
  "GetSuccessfulRecords s jobID w =
     (case Get (client s)
             (''/services/data/v'' @ apiVersion s @ ''/jobs/ingest/'' @ jobID @ ''/successfulResults'') w of
        (Inl err, w') \<Rightarrow> (Inl err, w')
      | (Inr respBody, w') \<Rightarrow>
          (case parseCSV respBody of
             Inl err \<Rightarrow> (Inl err, w')
           | Inr records \<Rightarrow>
               (Inr (map (\<lambda>r. \<lparr> sID = getString r ''sf__Id'',
                                 sCreated = (getString r ''sf__Created'' = ''true''),
                                 sData = r \<rparr>) records), w')))"

definition GetFailedRecords ::
  "Service \<Rightarrow> string \<Rightarrow> world \<Rightarrow> (error + FailedRecord list) \<times> world" where
  "GetFailedRecords s jobID w =
     (case Get (client s)
             (''/services/data/v'' @ apiVersion s @ ''/jobs/ingest/'' @ jobID @ ''/failedResults'') w of
        (Inl err, w') \<Rightarrow> (Inl err, w')
      | (Inr respBody, w') \<Rightarrow>
          (case parseCSV respBody of
             Inl err \<Rightarrow> (Inl err, w')
           | Inr records \<Rightarrow>
               (Inr (map (\<lambda>r. \<lparr> fID = getString r ''sf__Id'',
                                 fError = getString r ''sf__Error'',
                                 fData = r \<rparr>) records), w')))"

definition GetUnprocessedRecords ::
  "Service \<Rightarrow> string \<Rightarrow> world \<Rightarrow> (error + (string \<rightharpoonup> string) list) \<times> world" where
  "GetUnprocessedRecords s jobID w =
     (case Get (client s)
             (''/services/data/v'' @ apiVersion s @ ''/jobs/ingest/'' @ jobID @ ''/unprocessedrecords'') w of
        (Inl err, w') \<Rightarrow> (Inl err, w')
      | (Inr respBody, w') \<Rightarrow> (parseCSV respBody, w'))"

text \<open>
  An attempt is classified retryable when \<open>doRequest\<close> returns an error on which
  \<open>isRetryable\<close> holds.
\<close>

definition failsRetryably :: "Client \<Rightarrow> string \<Rightarrow> string \<Rightarrow> req_body \<Rightarrow> world \<Rightarrow> bool" where
  "failsRetryably c method path body w =
     (case fst (doRequest c method path body w) of
        Inl err \<Rightarrow> isRetryable err
      | Inr resp \<Rightarrow> False)"

section \<open>Example inputs\<close>

text \<open>
  The client as \<open>NewClient\<close> builds it (three retries, waits between one and thirty seconds)
  with a token provider, and a world whose provider holds a token, whose context is never
  done and whose backoff computation draws no jitter.
\<close>

definition defaultClient :: Client where
  "defaultClient =
     \<lparr> maxRetries = 3, retryWaitMin = Second, retryWaitMax = 30 * Second,
       hasTokenProvider = True, acceptsRequest = (\<lambda>method url. True) \<rparr>"

definition token1 :: Token where
  "token1 = (issuedToken (63000000000 * Second))\<lparr>AccessToken := ''00Dxx!AQ1''\<rparr>"

definition token2 :: Token where
  "token2 = (issuedToken (63000000000 * Second))\<lparr>AccessToken := ''00Dxx!AQ2''\<rparr>"

definition scripted :: "reply list \<Rightarrow> (error + Token) list \<Rightarrow> world" where
  "scripted rs fs =
     \<lparr> baseURL = ''https://na1.salesforce.com'', accessToken = ''00Dxx!AQ0'',
       providerToken = Some (issuedToken (63000000000 * Second)),
       replies = rs, refreshes = fs,
       floatDuration = (\<lambda>attempt. Second * 2 ^ nat attempt),
       ctxDone = (\<lambda>attempt. None),
       sent = [], refreshCalls = 0, slept = [] \<rparr>"

definition sessionExpired :: reply where
  "sessionExpired =
     Reply 401 [] ''[{\"message\":\"Session expired or invalid\",\"errorCode\":\"INVALID_SESSION_ID\"}]''
       (DecodesToArray [\<lparr> Message = ''Session expired or invalid'',
                           ErrorCode = ''INVALID_SESSION_ID'', Fields = [], StatusCode = 0 \<rparr>])"

definition okReply :: reply where
  "okReply = Reply 200 [] ''{\"ok\":true}'' Undecodable"

definition throttled :: "string \<Rightarrow> reply" where
  "throttled ra = Reply 429 ra ''Too Many Requests'' Undecodable"

definition unavailableArray :: reply where
  "unavailableArray =
     Reply 503 [] ''[{\"message\":\"Service unavailable\",\"errorCode\":\"SERVER_UNAVAILABLE\"}]''
       (DecodesToArray [\<lparr> Message = ''Service unavailable'',
                           ErrorCode = ''SERVER_UNAVAILABLE'', Fields = [], StatusCode = 0 \<rparr>])"

definition unavailableObject :: reply where
  "unavailableObject =
     Reply 503 [] ''{\"message\":\"Service unavailable\",\"errorCode\":\"SERVER_UNAVAILABLE\"}''
       (DecodesToObject \<lparr> Message = ''Service unavailable'',
                          ErrorCode = ''SERVER_UNAVAILABLE'', Fields = [], StatusCode = 0 \<rparr>)"

text \<open>
  Result bodies: a failure row that lacks its last cell, the same row with the cell present
  and empty, and a row with one cell more than the header.  A bulk service on the default
  client, and a reply that carries a result body.
\<close>

definition shortRow :: string where
  "shortRow = ''sf__Id,sf__Error,Name\<newline>001xx0000000001,REQUIRED_FIELD_MISSING: Name\<newline>''"

definition fullRow :: string where
  "fullRow = ''sf__Id,sf__Error,Name\<newline>001xx0000000001,REQUIRED_FIELD_MISSING: Name,\<newline>''"

definition longRow :: string where
  "longRow = ''sf__Id,sf__Error\<newline>001xx0000000001,REQUIRED_FIELD_MISSING: Name,Acme\<newline>''"

definition bulk :: Service where
  "bulk = \<lparr> client = defaultClient, apiVersion = ''59.0'' \<rparr>"

definition csvReply :: "string \<Rightarrow> reply" where
  "csvReply data = Reply 200 [] data Undecodable"

text \<open>Two rejections in a row, each refresh succeeding, then a success.\<close>

definition twice401 :: world where
  "twice401 = scripted [sessionExpired, sessionExpired, okReply] [Inr token1, Inr token2]"

text \<open>
  One throttled reply that asks for 120 seconds, then a success; the value of the backoff
  computation is left open.
\<close>

definition throttledOnce :: "(int \<Rightarrow> Duration) \<Rightarrow> world" where
  "throttledOnce f = (scripted [throttled ''120'', okReply] [])\<lparr>floatDuration := f\<rparr>"

text \<open>The error that \<open>ParseAPIError\<close> builds from \<open>unavailableArray\<close>.\<close>

definition unavailable503 :: error where
  "unavailable503 =
     APIErrors [\<lparr> Message = ''Service unavailable'', ErrorCode = ''SERVER_UNAVAILABLE'',
                  Fields = [], StatusCode = 503 \<rparr>]"

text \<open>A world whose context is cancelled during the sleep that follows attempt \<open>k\<close>.\<close>

definition cancelledAt :: "int \<Rightarrow> world \<Rightarrow> world" where
  "cancelledAt k w = w\<lparr>ctxDone := (\<lambda>attempt. if attempt = k then Some Canceled else None)\<rparr>"

section \<open>What the executor leaves alone\<close>

text \<open>
  Neither the transport nor the refresh touches the sleep log, the context or the backoff
  values, and so neither does \<open>doRequest\<close>.
\<close>

lemma Do_frame:
  "Do m u t w = (r, w') \<Longrightarrow>
     slept w' = slept w \<and> ctxDone w' = ctxDone w \<and> floatDuration w' = floatDuration w"
  by (auto simp: Do_def Let_def split: list.splits)

lemma RefreshToken_frame:
  "SalesforceClient_RefreshToken w = (r, w') \<Longrightarrow>
     slept w' = slept w \<and> ctxDone w' = ctxDone w \<and> floatDuration w' = floatDuration w"
  by (auto simp: SalesforceClient_RefreshToken_def Let_def split: list.splits sum.splits)

lemma doRequest_frame:
  "doRequest c meth pth bdy w = (r, w') \<Longrightarrow>
     slept w' = slept w \<and> ctxDone w' = ctxDone w \<and> floatDuration w' = floatDuration w"
proof (induction c meth pth bdy w arbitrary: r w' rule: doRequest.induct)
  case (1 c meth pth bdy w)
  obtain url token where cr: "credentials c w = (url, token)"
    by (cases "credentials c w")
  obtain rep w1 where d: "Do meth (url @ pth) token w = (rep, w1)"
    by (cases "Do meth (url @ pth) token w")
  obtain e w2 where rf: "SalesforceClient_RefreshToken w1 = (e, w2)"
    by (cases "SalesforceClient_RefreshToken w1")
  note f1 = Do_frame [OF d]
  note f2 = RefreshToken_frame [OF rf]
  show ?case
  proof (cases "bdy = OtherBody None \<or> \<not> acceptsRequest c meth (url @ pth)")
    case True
    with "1.prems" cr show ?thesis
      by (subst (asm) doRequest.simps) (auto split: if_splits)
  next
    case False
    show ?thesis
    proof (cases rep)
      case DoError
      with "1.prems" cr d False f1 show ?thesis
        by (subst (asm) doRequest.simps) auto
    next
      case ReadError
      with "1.prems" cr d False f1 show ?thesis
        by (subst (asm) doRequest.simps) auto
    next
      case (Reply status ra respBody dec)
      show ?thesis
      proof (cases "status = StatusUnauthorized \<and> hasTokenProvider c \<and> e = None \<and> status \<noteq> StatusTooManyRequests \<and> (status < 200 \<or> 300 \<le> status)")
        case True
        have "doRequest c meth pth bdy w = doRequest c meth pth bdy w2"
          using cr d False Reply rf True
          by (subst doRequest.simps) auto
        with "1.prems" have r2: "doRequest c meth pth bdy w2 = (r, w')" by simp
        have "slept w' = slept w2 \<and> ctxDone w' = ctxDone w2 \<and> floatDuration w' = floatDuration w2"
          using "1.IH" [OF cr [symmetric] _ _ d [symmetric, unfolded Reply] refl _ _ _ rf [symmetric] _ r2] False True
          by auto
        with f1 f2 show ?thesis by simp
      next
        case F2: False
        with "1.prems" cr d False Reply rf f1 f2 show ?thesis
          by (subst (asm) doRequest.simps) (auto split: if_splits option.splits)
      qed
    qed
  qed
qed

section \<open>Refresh and replay on 401\<close>

text \<open>
  A single 401 followed by a success: with a provider whose refresh succeeds,
  \<open>doRequest\<close> refreshes once, sends the request a second time with the new token and
  returns the body of the second reply.
\<close>

lemma doRequest_one_401:
  assumes prov: "hasTokenProvider c"
    and bdy: "b \<noteq> OtherBody None"
    and acc: "\<And>u. acceptsRequest c m u"
    and rep: "replies w = Reply 401 ra1 b1 d1 # Reply s ra2 b2 d2 # rs"
    and ok: "200 \<le> s" "s < 300"
    and ref: "refreshes w = Inr tok # fs"
  shows "fst (doRequest c m p b w) = Inr b2 \<and>
         refreshCalls (snd (doRequest c m p b w)) = refreshCalls w + 1 \<and>
         length (sent (snd (doRequest c m p b w))) = length (sent w) + 2 \<and>
         snd (snd (last (sent (snd (doRequest c m p b w))))) = ''Bearer '' @ AccessToken tok \<and>
         replies (snd (doRequest c m p b w)) = rs"
proof -
  obtain u t where cr: "credentials c w = (u, t)"
    by (cases "credentials c w")
  let ?w1 = "w\<lparr>sent := sent w @ [(m, u @ p, ''Bearer '' @ t)], replies := Reply s ra2 b2 d2 # rs\<rparr>"
  have d1: "Do m (u @ p) t w = (Reply 401 ra1 b1 d1, ?w1)"
    using rep by (simp add: Do_def Let_def)
  obtain w2 where r2: "SalesforceClient_RefreshToken ?w1 = (None, w2)"
    and w2: "replies w2 = Reply s ra2 b2 d2 # rs" "refreshCalls w2 = refreshCalls w + 1"
      "sent w2 = sent w @ [(m, u @ p, ''Bearer '' @ t)]" "providerToken w2 = Some tok"
    using ref by (simp add: SalesforceClient_RefreshToken_def Let_def)
  have step1: "doRequest c m p b w = doRequest c m p b w2"
    using cr bdy acc d1 r2 prov
    by (subst doRequest.simps) (simp add: StatusUnauthorized_def StatusTooManyRequests_def)
  obtain u2 where cr2: "credentials c w2 = (u2, AccessToken tok)"
    using prov w2(4) by (simp add: credentials_def)
  have d2: "Do m (u2 @ p) (AccessToken tok) w2 =
      (Reply s ra2 b2 d2, w2\<lparr>sent := sent w2 @ [(m, u2 @ p, ''Bearer '' @ AccessToken tok)], replies := rs\<rparr>)"
    using w2(1) by (simp add: Do_def Let_def)
  have step2: "doRequest c m p b w2 =
      (Inr b2, w2\<lparr>sent := sent w2 @ [(m, u2 @ p, ''Bearer '' @ AccessToken tok)], replies := rs\<rparr>)"
    using cr2 bdy acc d2 ok
    by (subst doRequest.simps) simp
  from step1 step2 w2 show ?thesis by simp
qed

text \<open>
  C1 at a concrete call: the transport answers 401, 401, 200 and both refreshes succeed.
  The claim has the second 401 surface the authentication error after one refresh;
  \<open>doRequest\<close> refreshes a second time, replays a second time and returns the body of the
  third reply.  The three requests go out with the original token and the two refreshed
  ones.
\<close>

theorem doRequest_refreshes_on_every_401:
  "fst (doRequest defaultClient ''GET'' ''/x'' NoBody twice401) = Inr ''{\"ok\":true}'' \<and>
   refreshCalls (snd (doRequest defaultClient ''GET'' ''/x'' NoBody twice401)) = 2 \<and>
   map (snd \<circ> snd) (sent (snd (doRequest defaultClient ''GET'' ''/x'' NoBody twice401))) =
     [''Bearer 00Dxx!AQ0'', ''Bearer 00Dxx!AQ1'', ''Bearer 00Dxx!AQ2'']"
  by code_simp

section \<open>Throttling and the server's suggested delay\<close>

text \<open>Whatever the backoff computation gives, the wait is capped at \<open>retryWaitMax\<close>.\<close>

lemma calculateBackoff_le_max: "calculateBackoff c d \<le> retryWaitMax c"
  by (simp add: calculateBackoff_def)

lemma throttledOnce_slept:
  "slept (snd (Request defaultClient ''GET'' ''/x'' NoBody (throttledOnce f))) =
     [calculateBackoff defaultClient (f 0)]"
  by (simp add: Request_def throttledOnce_def scripted_def throttled_def okReply_def
      defaultClient_def credentials_def Do_def Let_def Atoi_def digitVal_def isRetryable_def
      StatusTooManyRequests_def StatusUnauthorized_def calculateBackoff_def Second_def)

text \<open>
  C3 at a concrete call: the first reply is a 429 with \<open>Retry-After: 120\<close>, the second a
  200.  \<open>doRequest\<close> reads the header into the \<open>RateLimitError\<close>, but the sleep that
  \<open>Request\<close> takes before the second attempt is the backoff value, which is at most
  \<open>retryWaitMax\<close> (30 seconds) whatever the backoff computation gives, never the 120
  seconds the server asked for.
\<close>

theorem Request_sleeps_backoff_not_RetryAfter:
  "fst (doRequest defaultClient ''GET'' ''/x'' NoBody (throttledOnce f)) =
     Inl (RateLimitError 120 ''Too Many Requests'') \<and>
   fst (Request defaultClient ''GET'' ''/x'' NoBody (throttledOnce f)) = Inr ''{\"ok\":true}'' \<and>
   slept (snd (Request defaultClient ''GET'' ''/x'' NoBody (throttledOnce f))) =
     [calculateBackoff defaultClient (f 0)] \<and>
   calculateBackoff defaultClient (f 0) \<le> 30 * Second \<and>
   30 * Second < 120 * Second"
proof -
  have a: "fst (doRequest defaultClient ''GET'' ''/x'' NoBody (throttledOnce f)) =
     Inl (RateLimitError 120 ''Too Many Requests'')"
    by code_simp
  have b: "fst (Request defaultClient ''GET'' ''/x'' NoBody (throttledOnce f)) =
     Inr ''{\"ok\":true}''"
    by code_simp
  have d: "calculateBackoff defaultClient (f 0) \<le> 30 * Second"
    by (simp add: calculateBackoff_def defaultClient_def)
  have e: "30 * Second < 120 * Second"
    by (simp add: Second_def)
  from a b throttledOnce_slept [of f] d e show ?thesis by blast
qed

section \<open>Which errors the retry loop retries\<close>

text \<open>
  C7 at a concrete call: a 503 whose body is a JSON array of error objects.
  \<open>ParseAPIError\<close> returns the slice type \<open>APIErrors\<close>; \<open>types.IsRetryableError\<close> calls it
  retryable, \<open>isRetryable\<close> of the executor does not, and \<open>Request\<close> returns it after a
  single request.  The same 503 with a single JSON object as body is retried.
\<close>

theorem Request_does_not_retry_error_array:
  "fst (Request defaultClient ''GET'' ''/x'' NoBody (scripted [unavailableArray, okReply] [])) =
     Inl unavailable503 \<and>
   length (sent (snd (Request defaultClient ''GET'' ''/x'' NoBody
     (scripted [unavailableArray, okReply] [])))) = 1 \<and>
   IsRetryableError unavailable503 \<and> \<not> isRetryable unavailable503 \<and>
   fst (Request defaultClient ''GET'' ''/x'' NoBody (scripted [unavailableObject, okReply] [])) =
     Inr ''{\"ok\":true}'' \<and>
   length (sent (snd (Request defaultClient ''GET'' ''/x'' NoBody
     (scripted [unavailableObject, okReply] [])))) = 2"
  by code_simp

section \<open>Cancellation during the backoff sleep\<close>

text \<open>
  C8.  Whenever an attempt that is not the last one fails with a retryable error and the
  context is done during the sleep that follows (the \<open>select\<close> receives from \<open>ctx.Done()\<close>),
  the retry loop returns the context's error at once: the world it returns is the one the
  failed attempt left, so no further request has gone out, and the sleep log is as it was,
  so the sleep has not run to completion.
\<close>

theorem Request_cancelled_during_sleep:
  assumes "attempt < maxRetries c"
    and "failsRetryably c method path body w"
    and "ctxDone w attempt = Some ctxErr"
  shows "RequestFrom c method path body attempt lastErr w =
           (Inl (ContextError ctxErr), snd (doRequest c method path body w)) \<and>
         slept (snd (doRequest c method path body w)) = slept w"
proof -
  obtain r w1 where d: "doRequest c method path body w = (r, w1)"
    by (cases "doRequest c method path body w")
  from assms(2) d obtain err where r: "r = Inl err" and retry: "isRetryable err"
    by (auto simp: failsRetryably_def split: sum.splits)
  from doRequest_frame [OF d] assms(3) have done1: "ctxDone w1 attempt = Some ctxErr"
    and sl: "slept w1 = slept w"
    by simp_all
  show ?thesis
    using assms(1) d r retry done1 sl
    by (subst RequestFrom.simps) simp
qed

theorem Request_cancelled_during_sleep_witness:
  "0 < maxRetries defaultClient \<and>
   failsRetryably defaultClient ''GET'' ''/x'' NoBody
     (cancelledAt 0 (scripted [unavailableObject, okReply] [])) \<and>
   ctxDone (cancelledAt 0 (scripted [unavailableObject, okReply] [])) 0 = Some Canceled \<and>
   fst (Request defaultClient ''GET'' ''/x'' NoBody
     (cancelledAt 0 (scripted [unavailableObject, okReply] []))) = Inl (ContextError Canceled) \<and>
   slept (snd (Request defaultClient ''GET'' ''/x'' NoBody
     (cancelledAt 0 (scripted [unavailableObject, okReply] [])))) = [] \<and>
   length (sent (snd (Request defaultClient ''GET'' ''/x'' NoBody
     (cancelledAt 0 (scripted [unavailableObject, okReply] []))))) = 1"
proof -
  let ?w = "cancelledAt 0 (scripted [unavailableObject, okReply] [])"
  have h1: "0 < maxRetries defaultClient"
    by (simp add: defaultClient_def)
  have h2: "failsRetryably defaultClient ''GET'' ''/x'' NoBody ?w"
    by code_simp
  have h3: "ctxDone ?w 0 = Some Canceled"
    by (simp add: cancelledAt_def)
  have n: "length (sent (snd (doRequest defaultClient ''GET'' ''/x'' NoBody ?w))) = 1"
    by code_simp
  have s: "slept ?w = []"
    by (simp add: cancelledAt_def scripted_def)
  from Request_cancelled_during_sleep [OF h1 h2 h3, of None] h1 h2 h3 n s
  show ?thesis
    by (simp add: Request_def)
qed

text \<open>
  Over the whole loop: if the context is done during the sleep that would follow attempt
  \<open>k\<close>, then from attempt \<open>attempt\<close> on at most \<open>k - attempt\<close> sleeps run to completion,
  those that follow the attempts before \<open>k\<close>.
\<close>

lemma RequestFrom_past_last:
  "maxRetries c < attempt \<Longrightarrow>
     RequestFrom c m p b attempt lastErr w = (Inl (AttemptsExhausted (maxRetries c + 1) lastErr), w)"
  by (subst RequestFrom.simps) simp

lemma RequestFrom_sleeps_until_cancelled:
  "RequestFrom c m p b attempt lastErr w = (r, w') \<Longrightarrow> attempt \<le> k \<Longrightarrow>
     ctxDone w k = Some ctxErr \<Longrightarrow>
     length (slept w') \<le> length (slept w) + nat (k - attempt)"
proof (induction c m p b attempt lastErr w arbitrary: r w' rule: RequestFrom.induct)
  case (1 c m p b attempt lastErr w)
  obtain res w1 where d: "doRequest c m p b w = (res, w1)"
    by (cases "doRequest c m p b w")
  note fr = doRequest_frame [OF d]
  show ?case
  proof (cases "attempt \<le> maxRetries c")
    case False
    with "1.prems"(1) show ?thesis
      by (subst (asm) RequestFrom.simps) auto
  next
    case le: True
    show ?thesis
    proof (cases res)
      case (Inr resp)
      with le d fr "1.prems"(1) show ?thesis
        by (subst (asm) RequestFrom.simps) auto
    next
      case (Inl err)
      show ?thesis
      proof (cases "isRetryable err")
        case False
        with Inl le d fr "1.prems"(1) show ?thesis
          by (subst (asm) RequestFrom.simps) auto
      next
        case retry: True
        show ?thesis
        proof (cases "attempt < maxRetries c")
          case False
          with le have "maxRetries c < attempt + 1" by simp
          from RequestFrom_past_last [OF this] Inl le d fr retry False "1.prems"(1)
          show ?thesis
            by (subst (asm) RequestFrom.simps) auto
        next
          case lt: True
          show ?thesis
          proof (cases "ctxDone w1 attempt")
            case (Some e)
            with Inl le d fr retry lt "1.prems"(1) show ?thesis
              by (subst (asm) RequestFrom.simps) auto
          next
            case None
            let ?w2 = "w1\<lparr>slept := slept w1 @ [calculateBackoff c (floatDuration w1 attempt)]\<rparr>"
            from None Inl le d retry lt "1.prems"(1)
            have rec: "RequestFrom c m p b (attempt + 1) (Some err) ?w2 = (r, w')"
              by (subst (asm) RequestFrom.simps) (simp add: Let_def)
            from None fr "1.prems"(2,3) have "attempt \<noteq> k" by auto
            with "1.prems"(2) have k: "attempt + 1 \<le> k" by simp
            from fr "1.prems"(3) have c2: "ctxDone ?w2 k = Some ctxErr" by simp
            from "1.IH"(1) [OF le d [symmetric] Inl _ lt refl None rec k c2] retry
            have "length (slept w') \<le> length (slept ?w2) + nat (k - (attempt + 1))"
              by simp
            with fr k show ?thesis by simp
          qed
        qed
      qed
    qed
  qed
qed

section \<open>Parsing result bodies\<close>

text \<open>
  C5 at concrete bodies.  The row of the specification's own example, with its third cell
  present and empty, parses into a record whose \<open>Name\<close> is empty.  A row that lacks the
  trailing cell, and a row with a cell more than the header, make the reader return
  \<open>ErrFieldCount\<close>, which \<open>parseCSV\<close> and with it \<open>GetFailedRecords\<close> return as an error;
  the claim has such rows parsed, with the missing cells absent.
\<close>

theorem parseCSV_rejects_uneven_rows:
  "(case parseCSV fullRow of
      Inl err \<Rightarrow> None
    | Inr records \<Rightarrow> Some (map (\<lambda>r. (r ''sf__Id'', r ''sf__Error'', r ''Name'')) records)) =
     Some [(Some ''001xx0000000001'', Some ''REQUIRED_FIELD_MISSING: Name'', Some [])] \<and>
   parseCSV shortRow = Inl (RowReadFailed ErrFieldCount) \<and>
   parseCSV longRow = Inl (RowReadFailed ErrFieldCount) \<and>
   fst (GetFailedRecords bulk ''750xx'' (scripted [csvReply shortRow] [])) =
     Inl (RowReadFailed ErrFieldCount)"
proof -
  have a: "(case parseCSV fullRow of
      Inl err \<Rightarrow> None
    | Inr records \<Rightarrow> Some (map (\<lambda>r. (r ''sf__Id'', r ''sf__Error'', r ''Name'')) records)) =
     Some [(Some ''001xx0000000001'', Some ''REQUIRED_FIELD_MISSING: Name'', Some [])]"
    by code_simp
  have b: "parseCSV shortRow = Inl (RowReadFailed ErrFieldCount)"
    by (simp add: parseCSV_def NewReader_def Read_def readLine_def shortRow_def lengthNL_def
        NL_def CR_def index_def Comma_def Quote_def Let_def)
  have c: "parseCSV longRow = Inl (RowReadFailed ErrFieldCount)"
    by (simp add: parseCSV_def NewReader_def Read_def readLine_def longRow_def lengthNL_def
        NL_def CR_def index_def Comma_def Quote_def Let_def)
  have d: "fst (Get defaultClient ''/services/data/v59.0/jobs/ingest/750xx/failedResults''
                 (scripted [csvReply shortRow] [])) = Inr shortRow"
    by code_simp
  have e: "fst (GetFailedRecords bulk ''750xx'' (scripted [csvReply shortRow] [])) =
     Inl (RowReadFailed ErrFieldCount)"
    using b d by (auto simp: GetFailedRecords_def bulk_def split: prod.splits sum.splits)
  from a b c e show ?thesis by blast
qed

text \<open>
  C10.  On an empty body the first \<open>Read\<close> is at the end of the input and \<open>parseCSV\<close>
  returns the empty list of records with no error; so whenever the results request
  returns an empty body, \<open>GetSuccessfulRecords\<close> returns no records and no error.
\<close>

theorem parseCSV_empty_body:
  "parseCSV [] = Inr [] \<and>
   (fst (Get (client s)
          (''/services/data/v'' @ apiVersion s @ ''/jobs/ingest/'' @ jobID @ ''/successfulResults'') w) =
      Inr [] \<longrightarrow>
    fst (GetSuccessfulRecords s jobID w) = Inr [])"
  by (auto simp: GetSuccessfulRecords_def parseCSV_def NewReader_def Read_def readLine_def
      split: prod.splits sum.splits)

theorem parseCSV_empty_body_witness:
  "fst (Get (client bulk) (''/services/data/v'' @ apiVersion bulk @ ''/jobs/ingest/'' @ ''750xx'' @
          ''/successfulResults'') (scripted [csvReply []] [])) = Inr [] \<and>
   fst (GetSuccessfulRecords bulk ''750xx'' (scripted [csvReply []] [])) = Inr []"
proof -
  have h: "fst (Get (client bulk) (''/services/data/v'' @ apiVersion bulk @ ''/jobs/ingest/'' @
          ''750xx'' @ ''/successfulResults'') (scripted [csvReply []] [])) = Inr []"
    by code_simp
  with parseCSV_empty_body [of bulk "''750xx''" "scripted [csvReply []] []"]
  show ?thesis by blast
qed

section \<open>Uploading no records\<close>

text \<open>
  C9.  With an empty slice of records \<open>UploadCSV\<close> returns nil and leaves the world as it
  was: nothing is handed to the transport, for every job, every column list and every
  state of the client.
\<close>

theorem UploadCSV_empty:
  "UploadCSV s jobID [] columns keyOrder w = (None, w) \<and>
   sent (snd (UploadCSV s jobID [] columns keyOrder w)) = sent w"
  by (simp add: UploadCSV_def)

section \<open>Credential expiry\<close>

lemma Since_gt_two_hours: "(2 * Hour < Since now t0) = (t0 + 2 * Hour < now)"
  by (auto simp: Since_def Sub_def Let_def Hour_def Minute_def Second_def
      maxDuration_def minDuration_def)

text \<open>
  C4, as the code has it.  A credential without \<open>ExpiresAt\<close> is reported expired exactly
  when more than two hours have passed since \<open>IssuedAt\<close>; a credential with \<open>ExpiresAt\<close>
  is reported expired exactly when the clock is later than \<open>ExpiresAt\<close> minus five
  minutes.
\<close>

theorem IsExpired_policy:
  "(ExpiresAt t = 0 \<longrightarrow> IsExpired now t = (IssuedAt t + 2 * Hour < now)) \<and>
   (ExpiresAt t \<noteq> 0 \<longrightarrow> IsExpired now t = (ExpiresAt t - 5 * Minute < now))"
  by (simp add: IsExpired_def IsZero_def Since_gt_two_hours After_def Add_def)

theorem IsExpired_policy_witness:
  "IsExpired (63000000000 * Second + 3 * Hour) (issuedToken (63000000000 * Second)) \<and>
   \<not> IsExpired (63000000000 * Second + Hour) (issuedToken (63000000000 * Second)) \<and>
   IsExpired (63000007000 * Second)
     ((issuedToken (63000000000 * Second))\<lparr>ExpiresAt := 63000007200 * Second\<rparr>) \<and>
   \<not> IsExpired (63000006900 * Second)
     ((issuedToken (63000000000 * Second))\<lparr>ExpiresAt := 63000007200 * Second\<rparr>)"
  using IsExpired_policy [of "issuedToken (63000000000 * Second)" "63000000000 * Second + 3 * Hour"]
    IsExpired_policy [of "issuedToken (63000000000 * Second)" "63000000000 * Second + Hour"]
    IsExpired_policy [of "(issuedToken (63000000000 * Second))\<lparr>ExpiresAt := 63000007200 * Second\<rparr>"
      "63000007000 * Second"]
    IsExpired_policy [of "(issuedToken (63000000000 * Second))\<lparr>ExpiresAt := 63000007200 * Second\<rparr>"
      "63000006900 * Second"]
  by (simp add: issuedToken_def Hour_def Minute_def Second_def)

text \<open>
  C4 as the specification words it fails: a credential without \<open>ExpiresAt\<close> is reported
  expired three hours after it was issued, with nothing but the passage of time.
\<close>

theorem IsExpired_absent_counterexample:
  "ExpiresAt (issuedToken (63000000000 * Second)) = 0 \<and>
   IsExpired (63000000000 * Second + 3 * Hour) (issuedToken (63000000000 * Second))"
  by (simp add: IsExpired_def IsZero_def Since_def Sub_def Let_def issuedToken_def
      Hour_def Minute_def Second_def maxDuration_def minDuration_def)

end
